theory Spec2Isabelle
  imports Main "HOL-Library.Word" "HOL-Library.Sublist"
begin

section \<open>Strings of the runtime\<close>

text \<open>
  A string of the source language is a sequence of UTF-16 code units. String literals of
  the source are written \<open>str ''...''\<close>; they are ASCII throughout the service.
\<close>

type_synonym jsstring = "16 word list"

definition str :: "string \<Rightarrow> jsstring" where
  "str s = map of_char s"

text \<open>
  \<^verbatim>\<open>String.prototype.trim\<close> removes the white space and line terminator code units
  of the language from both ends: TAB, LF, VT, FF, CR, SP, NBSP, U+1680, U+2000 to U+200A,
  LS, PS, U+202F, U+205F, U+3000 and the byte order mark.
\<close>

definition isWhiteSpace :: "16 word \<Rightarrow> bool" where
  "isWhiteSpace c \<longleftrightarrow>
     c = 0x0009 \<or> c = 0x000A \<or> c = 0x000B \<or> c = 0x000C \<or> c = 0x000D \<or> c = 0x0020 \<or>
     c = 0x00A0 \<or> c = 0x1680 \<or> (0x2000 \<le> c \<and> c \<le> 0x200A) \<or> c = 0x2028 \<or>
     c = 0x2029 \<or> c = 0x202F \<or> c = 0x205F \<or> c = 0x3000 \<or> c = 0xFEFF"

definition trim :: "jsstring \<Rightarrow> jsstring" where
  "trim s = rev (dropWhile isWhiteSpace (rev (dropWhile isWhiteSpace s)))"

text \<open>
  An optional string in a condition is truthy when it is defined and not empty; in a
  template literal \<^verbatim>\<open>${x}\<close> an undefined value prints as \<^verbatim>\<open>undefined\<close>.
\<close>

definition truthy :: "jsstring option \<Rightarrow> bool" where
  "truthy v = (case v of None \<Rightarrow> False | Some s \<Rightarrow> s \<noteq> [])"

definition interp :: "jsstring option \<Rightarrow> jsstring" where
  "interp v = (case v of None \<Rightarrow> str ''undefined'' | Some s \<Rightarrow> s)"

section \<open>The response of the generation service\<close>

text \<open>
  Modelled from the spec: the type \<^verbatim>\<open>GenerateContentResponse\<close> is declared by the
  service's client library, which geminiService.ts imports. The records follow the data
  model of the specification (section 3): an optional prompt feedback with a block reason
  and an optional block reason message, an optional sequence of candidates, each with a
  finish reason and content parts that may carry inline data (MIME type and base64
  payload, both strings), and an optional top-level text. Every field that the service
  code reads through \<^verbatim>\<open>?.\<close> is optional here; \<open>None\<close> is \<^verbatim>\<open>undefined\<close>. The top-level
  text is a field of its own, so every combination of text and parts is a response.
\<close>

record Blob =
  mimeType :: jsstring
  data :: jsstring

record Part =
  inlineData :: "Blob option"

record Content =
  parts :: "Part list option"

record Candidate =
  content :: "Content option"
  finishReason :: "jsstring option"

record PromptFeedback =
  blockReason :: "jsstring option"
  blockReasonMessage :: "jsstring option"

record GenerateContentResponse =
  promptFeedback :: "PromptFeedback option"
  candidates :: "Candidate list option"
  text' :: "jsstring option"

section \<open>Failures\<close>

text \<open>
  The service throws \<^verbatim>\<open>Error\<close> objects that differ in their message only. Each
  \<^verbatim>\<open>throw\<close> statement of geminiService.ts is a constructor, named after the failure
  kind of the specification (section 7), and carries the message:
  \<open>RequestBlocked\<close> is thrown at lines 48 and 292, \<open>AbnormalFinish\<close> at line 65,
  \<open>NoImageReturned\<close> at line 75, \<open>MalformedDetectionPayload\<close> at line 309 and
  \<open>NotAnArray\<close> at line 304. \<open>TypeError\<close> and \<open>SyntaxError\<close> are the exceptions
  of the runtime: reading a property of \<^verbatim>\<open>undefined\<close>, and \<^verbatim>\<open>JSON.parse\<close> on a text
  that is not JSON.
\<close>

datatype error =
    RequestBlocked jsstring
  | AbnormalFinish jsstring
  | NoImageReturned jsstring
  | MalformedDetectionPayload jsstring
  | NotAnArray jsstring
  | TypeError
  | SyntaxError

section \<open>handleApiResponse\<close>

text \<open>\<^verbatim>\<open>response.candidates?.[0]\<close>: the first candidate, undefined when there is none.\<close>

definition firstCandidate :: "GenerateContentResponse \<Rightarrow> Candidate option" where
  "firstCandidate response =
     Option.bind (candidates response) (\<lambda>cs. case cs of [] \<Rightarrow> None | c # _ \<Rightarrow> Some c)"

text \<open>
  Lines 45 and 46 (and 289 and 290): the prompt feedback is destructured and the message
  built; \<^verbatim>\<open>blockReasonMessage || ''\<close> is empty when the message is undefined or empty.
\<close>

definition blockedMessage :: "PromptFeedback \<Rightarrow> jsstring" where
  "blockedMessage pf =
     str ''Request was blocked. Reason: '' @ interp (blockReason pf) @ str ''. '' @
     (if truthy (blockReasonMessage pf) then interp (blockReasonMessage pf) else str '''')"

text \<open>
  Lines 39 to 76. The diagnostic logging (\<^verbatim>\<open>console.log\<close>, \<^verbatim>\<open>console.error\<close>) has no
  effect on the result and is left out. Optional chaining is \<open>Option.bind\<close>;
  \<^verbatim>\<open>parts.find(part => part.inlineData)\<close> is \<open>find\<close> with the test that the inline
  data (an object) is defined.
\<close>

definition handleApiResponse :: "GenerateContentResponse \<Rightarrow> jsstring \<Rightarrow> error + jsstring" where
  "handleApiResponse response context =
     (if truthy (Option.bind (promptFeedback response) blockReason) then
        (case promptFeedback response of
           None \<Rightarrow> Inl TypeError
         | Some pf \<Rightarrow> Inl (RequestBlocked (blockedMessage pf)))
      else
        let imagePartFromResponse =
              Option.bind (Option.bind (Option.bind (firstCandidate response) content) parts)
                (find (\<lambda>part. inlineData part \<noteq> None))
        in
        (case Option.bind imagePartFromResponse inlineData of
           Some blob \<Rightarrow> Inr (str ''data:'' @ mimeType blob @ str '';base64,'' @ data blob)
         | None \<Rightarrow>
             let finishReason = Option.bind (firstCandidate response) finishReason in
             if truthy finishReason \<and> finishReason \<noteq> Some (str ''STOP'') then
               Inl (AbnormalFinish
                 (str ''Image generation for '' @ context @
                  str '' stopped unexpectedly. Reason: '' @ interp finishReason @
                  str ''. This often relates to safety settings.''))
             else
               let textFeedback = map_option trim (text' response) in
               Inl (NoImageReturned
                 (str ''The AI model did not return an image for the '' @ context @ str ''. '' @
                  (if truthy textFeedback then
                     str ''The model responded with text: \"'' @ interp textFeedback @ str ''\"''
                   else
                     str ''This can happen due to safety filters or if the request is too complex. Please try rephrasing your prompt to be more direct.'')))))"

section \<open>JSON.parse\<close>

text \<open>
  \<^verbatim>\<open>JSON.parse\<close> is a function of the runtime. It is embedded as the language standard
  defines it: the text is split into the tokens of the JSON lexical grammar, and the
  tokens are parsed by the JSON syntactic grammar. A number keeps its literal as written
  (the runtime rounds it to a double, which the embedding does not do); an object is
  the list of its members, each key once: a repeated key keeps its place and takes the
  last value. The order of the list carries no meaning.
\<close>

datatype json =
    JNull
  | JBool bool
  | JNumber jsstring
  | JString jsstring
  | JArray "json list"
  | JObject "(jsstring \<times> json) list"

datatype token = LBracket | RBracket | LBrace | RBrace | Comma | Colon | Scalar json

text \<open>
  The lexical grammar. White space between tokens is TAB, LF, CR and SP only. A string
  ends at the next unescaped quotation mark; a code unit below U+0020 is not allowed in
  it, and the escapes are the eight single-character ones and \<^verbatim>\<open>\uXXXX\<close>.
  \<open>CHR 0x22\<close> is the quotation mark and \<open>CHR 0x5C\<close> the backslash.
\<close>

definition isJSONWhiteSpace :: "16 word \<Rightarrow> bool" where
  "isJSONWhiteSpace c \<longleftrightarrow> c = 0x0009 \<or> c = 0x000A \<or> c = 0x000D \<or> c = 0x0020"

definition isDigit :: "16 word \<Rightarrow> bool" where
  "isDigit c \<longleftrightarrow> of_char CHR ''0'' \<le> c \<and> c \<le> of_char CHR ''9''"

definition hexDigit :: "16 word \<Rightarrow> 16 word option" where
  "hexDigit c =
     (if of_char CHR ''0'' \<le> c \<and> c \<le> of_char CHR ''9'' then Some (c - of_char CHR ''0'')
      else if of_char CHR ''a'' \<le> c \<and> c \<le> of_char CHR ''f'' then Some (c - of_char CHR ''a'' + 10)
      else if of_char CHR ''A'' \<le> c \<and> c \<le> of_char CHR ''F'' then Some (c - of_char CHR ''A'' + 10)
      else None)"

definition hex4 :: "16 word \<Rightarrow> 16 word \<Rightarrow> 16 word \<Rightarrow> 16 word \<Rightarrow> 16 word option" where
  "hex4 a b c d =
     (case (hexDigit a, hexDigit b, hexDigit c, hexDigit d) of
        (Some w, Some x, Some y, Some z) \<Rightarrow> Some (((w * 16 + x) * 16 + y) * 16 + z)
      | _ \<Rightarrow> None)"

definition escape :: "16 word \<Rightarrow> 16 word option" where
  "escape e =
     (if e = of_char (CHR 0x22) then Some (of_char (CHR 0x22))
      else if e = of_char (CHR 0x5C) then Some (of_char (CHR 0x5C))
      else if e = of_char CHR ''/'' then Some (of_char CHR ''/'')
      else if e = of_char CHR ''b'' then Some 0x0008
      else if e = of_char CHR ''f'' then Some 0x000C
      else if e = of_char CHR ''n'' then Some 0x000A
      else if e = of_char CHR ''r'' then Some 0x000D
      else if e = of_char CHR ''t'' then Some 0x0009
      else None)"

fun consTo :: "'a \<Rightarrow> ('a list \<times> 'b) option \<Rightarrow> ('a list \<times> 'b) option" where
  "consTo x None = None"
| "consTo x (Some (xs, r)) = Some (x # xs, r)"

fun scanString :: "jsstring \<Rightarrow> (jsstring \<times> jsstring) option" where
  "scanString [] = None"
| "scanString (c # cs) =
     (if c = of_char (CHR 0x22) then Some ([], cs)
      else if c = of_char (CHR 0x5C) then
        (case cs of
           [] \<Rightarrow> None
         | e # es \<Rightarrow>
             if e = of_char CHR ''u'' then
               (case es of
                  h1 # h2 # h3 # h4 # rest \<Rightarrow>
                    (case hex4 h1 h2 h3 h4 of
                       None \<Rightarrow> None
                     | Some u \<Rightarrow> consTo u (scanString rest))
                | _ \<Rightarrow> None)
             else
               (case escape e of
                  None \<Rightarrow> None
                | Some x \<Rightarrow> consTo x (scanString es)))
      else if c < 0x0020 then None
      else consTo c (scanString cs))"

text \<open>
  A number is an optional minus sign, an integer part (a single zero, or digits), an
  optional fraction (a point and digits) and an optional exponent (\<^verbatim>\<open>e\<close> or \<^verbatim>\<open>E\<close>,
  an optional sign, digits). Each scanner returns what it read and the rest of the text.
\<close>

definition scanDigits :: "jsstring \<Rightarrow> (jsstring \<times> jsstring) option" where
  "scanDigits cs =
     (if takeWhile isDigit cs = [] then None
      else Some (takeWhile isDigit cs, dropWhile isDigit cs))"

definition scanInt :: "jsstring \<Rightarrow> (jsstring \<times> jsstring) option" where
  "scanInt cs =
     (case cs of
        [] \<Rightarrow> None
      | c # rest \<Rightarrow> if c = of_char CHR ''0'' then Some ([c], rest) else scanDigits cs)"

definition scanFraction :: "jsstring \<Rightarrow> (jsstring \<times> jsstring) option" where
  "scanFraction cs =
     (case cs of
        [] \<Rightarrow> Some ([], cs)
      | c # rest \<Rightarrow>
          if c = of_char CHR ''.'' then consTo c (scanDigits rest) else Some ([], cs))"

definition scanExponent :: "jsstring \<Rightarrow> (jsstring \<times> jsstring) option" where
  "scanExponent cs =
     (case cs of
        [] \<Rightarrow> Some ([], cs)
      | c # rest \<Rightarrow>
          if c = of_char CHR ''e'' \<or> c = of_char CHR ''E'' then
            (case rest of
               [] \<Rightarrow> None
             | s # rest' \<Rightarrow>
                 if s = of_char CHR ''+'' \<or> s = of_char CHR ''-'' then
                   consTo c (consTo s (scanDigits rest'))
                 else consTo c (scanDigits rest))
          else Some ([], cs))"

definition scanNumber :: "jsstring \<Rightarrow> (jsstring \<times> jsstring) option" where
  "scanNumber cs =
     (let (sign, cs1) =
            (case cs of
               [] \<Rightarrow> ([], cs)
             | c # rest \<Rightarrow> if c = of_char CHR ''-'' then ([c], rest) else ([], cs))
      in
      case scanInt cs1 of
        None \<Rightarrow> None
      | Some (i, cs2) \<Rightarrow>
          (case scanFraction cs2 of
             None \<Rightarrow> None
           | Some (f, cs3) \<Rightarrow>
               (case scanExponent cs3 of
                  None \<Rightarrow> None
                | Some (e, cs4) \<Rightarrow> Some (sign @ i @ f @ e, cs4))))"

fun consTok :: "token \<Rightarrow> token list option \<Rightarrow> token list option" where
  "consTok t None = None"
| "consTok t (Some ts) = Some (t # ts)"

function tokenize :: "jsstring \<Rightarrow> token list option" where
  "tokenize [] = Some []"
| "tokenize (c # cs) =
     (if isJSONWhiteSpace c then tokenize cs
      else if c = of_char CHR ''['' then consTok LBracket (tokenize cs)
      else if c = of_char CHR '']'' then consTok RBracket (tokenize cs)
      else if c = of_char CHR ''{'' then consTok LBrace (tokenize cs)
      else if c = of_char CHR ''}'' then consTok RBrace (tokenize cs)
      else if c = of_char CHR '','' then consTok Comma (tokenize cs)
      else if c = of_char CHR '':'' then consTok Colon (tokenize cs)
      else if c = of_char (CHR 0x22) then
        (case scanString cs of
           None \<Rightarrow> None
         | Some (s, rest) \<Rightarrow> consTok (Scalar (JString s)) (tokenize rest))
      else if c = of_char CHR ''-'' \<or> isDigit c then
        (case scanNumber (c # cs) of
           None \<Rightarrow> None
         | Some (n, rest) \<Rightarrow> consTok (Scalar (JNumber n)) (tokenize rest))
      else if prefix (str ''true'') (c # cs) then
        consTok (Scalar (JBool True)) (tokenize (drop 3 cs))
      else if prefix (str ''false'') (c # cs) then
        consTok (Scalar (JBool False)) (tokenize (drop 4 cs))
      else if prefix (str ''null'') (c # cs) then
        consTok (Scalar JNull) (tokenize (drop 3 cs))
      else None)"
  by pat_completeness auto
termination
proof -
  have consTo_rest: "\<exists>zs. r = Some (zs, rest)"
    if "consTo x r = Some (ys, rest)" for x :: "16 word" and r ys and rest :: jsstring
    using that by (cases r) auto
  have scanString_rest: "length rest < length cs" if "scanString cs = Some (s, rest)" for cs s rest
    using that
  proof (induction cs arbitrary: s rule: scanString.induct)
    case 1
    then show ?case by simp
  next
    case (2 c cs)
    then show ?case
      by (fastforce split: if_splits list.splits option.splits dest!: consTo_rest)
  qed
  have scanDigits_rest: "length rest < length cs" if a: "scanDigits cs = Some (d, rest)" for cs d rest
  proof -
    from a have "takeWhile isDigit cs \<noteq> []" and "rest = dropWhile isDigit cs"
      by (auto simp: scanDigits_def split: if_splits)
    moreover have "length (takeWhile isDigit cs) + length (dropWhile isDigit cs) = length cs"
      by (metis length_append takeWhile_dropWhile_id)
    ultimately show ?thesis by (cases "takeWhile isDigit cs") auto
  qed
  have scanInt_rest: "length rest < length cs" if "scanInt cs = Some (i, rest)" for cs i rest
    using that by (auto simp: scanInt_def split: list.splits if_splits dest: scanDigits_rest)
  have scanFraction_rest: "length rest \<le> length cs" if "scanFraction cs = Some (f, rest)" for cs f rest
    using that
    by (fastforce simp: scanFraction_def split: list.splits if_splits
          dest!: consTo_rest scanDigits_rest)
  have scanExponent_rest: "length rest \<le> length cs" if "scanExponent cs = Some (e, rest)" for cs e rest
    using that
    by (fastforce simp: scanExponent_def split: list.splits if_splits
          dest!: consTo_rest scanDigits_rest)
  have scanNumber_rest: "length rest < length cs" if a: "scanNumber cs = Some (n, rest)" for cs n rest
  proof -
    obtain sign cs1 where s: "(case cs of [] \<Rightarrow> ([], cs)
               | c # r \<Rightarrow> if c = of_char CHR ''-'' then ([c], r) else ([], cs)) = (sign, cs1)"
      by (cases "(case cs of [] \<Rightarrow> ([], cs)
               | c # r \<Rightarrow> if c = of_char CHR ''-'' then ([c], r) else ([], cs))") auto
    then have l1: "length cs1 \<le> length cs"
      by (auto split: list.splits if_splits)
    from a s obtain i cs2 f cs3 e where
      "scanInt cs1 = Some (i, cs2)" "scanFraction cs2 = Some (f, cs3)"
      "scanExponent cs3 = Some (e, rest)"
      by (auto simp: scanNumber_def split: option.splits)
    then have "length cs2 < length cs1" "length cs3 \<le> length cs2" "length rest \<le> length cs3"
      by (auto dest: scanInt_rest scanFraction_rest scanExponent_rest)
    with l1 show ?thesis by simp
  qed
  show ?thesis
  proof (relation "measure length")
    show "wf (measure length)" by simp
  qed (auto dest: scanString_rest scanNumber_rest)
qed

text \<open>
  The syntactic grammar, as a machine with a stack of the arrays and objects that are
  open: \<open>expect\<close> says what may come next, and each token is one step. A text is
  accepted when its tokens leave the stack empty with one finished value.
\<close>

datatype frame =
    ArrayFrame "json list"
  | ObjectFrame "(jsstring \<times> json) list" "jsstring option"

datatype expect = Value | ValueOrEnd | KeyOrEnd | Key | ColonNext | CommaOrEnd | Finished json

text \<open>Defining a member of an object that is being built.\<close>

fun setMember :: "jsstring \<Rightarrow> json \<Rightarrow> (jsstring \<times> json) list \<Rightarrow> (jsstring \<times> json) list" where
  "setMember k v [] = [(k, v)]"
| "setMember k v ((k', v') # ms) =
     (if k = k' then (k, v) # ms else (k', v') # setMember k v ms)"

text \<open>
  A finished value goes to the innermost open array or object, or is the result when
  none is open.
\<close>

fun reduce :: "json \<Rightarrow> frame list \<Rightarrow> (frame list \<times> expect) option" where
  "reduce v [] = Some ([], Finished v)"
| "reduce v (ArrayFrame es # st) = Some (ArrayFrame (es @ [v]) # st, CommaOrEnd)"
| "reduce v (ObjectFrame ms (Some k) # st) = Some (ObjectFrame (setMember k v ms) None # st, CommaOrEnd)"
| "reduce v (ObjectFrame ms None # st) = None"

text \<open>
  The moves of the machine: a value starts with a scalar or an opening bracket or brace;
  a closing bracket or brace finishes the innermost array or object; a key is a string
  in an object that has no key waiting for its value; a comma asks for the next element
  or the next key.
\<close>

fun startValue :: "frame list \<Rightarrow> token \<Rightarrow> (frame list \<times> expect) option" where
  "startValue st (Scalar v) = reduce v st"
| "startValue st LBracket = Some (ArrayFrame [] # st, ValueOrEnd)"
| "startValue st LBrace = Some (ObjectFrame [] None # st, KeyOrEnd)"
| "startValue st t = None"

fun closeArray :: "frame list \<Rightarrow> (frame list \<times> expect) option" where
  "closeArray (ArrayFrame es # st) = reduce (JArray es) st"
| "closeArray st = None"

fun closeObject :: "frame list \<Rightarrow> (frame list \<times> expect) option" where
  "closeObject (ObjectFrame ms None # st) = reduce (JObject ms) st"
| "closeObject st = None"

fun readKey :: "frame list \<Rightarrow> token \<Rightarrow> (frame list \<times> expect) option" where
  "readKey (ObjectFrame ms None # st) (Scalar (JString k)) =
     Some (ObjectFrame ms (Some k) # st, ColonNext)"
| "readKey st t = None"

fun afterComma :: "frame list \<Rightarrow> (frame list \<times> expect) option" where
  "afterComma (ArrayFrame es # st) = Some (ArrayFrame es # st, Value)"
| "afterComma (ObjectFrame ms None # st) = Some (ObjectFrame ms None # st, Key)"
| "afterComma st = None"

definition step :: "frame list \<Rightarrow> expect \<Rightarrow> token \<Rightarrow> (frame list \<times> expect) option" where
  "step st e t =
     (case e of
        Value \<Rightarrow> startValue st t
      | ValueOrEnd \<Rightarrow> if t = RBracket then closeArray st else startValue st t
      | KeyOrEnd \<Rightarrow> if t = RBrace then closeObject st else readKey st t
      | Key \<Rightarrow> readKey st t
      | ColonNext \<Rightarrow> if t = Colon then Some (st, Value) else None
      | CommaOrEnd \<Rightarrow>
          if t = Comma then afterComma st
          else if t = RBracket then closeArray st
          else if t = RBrace then closeObject st
          else None
      | Finished v \<Rightarrow> None)"

fun run :: "frame list \<Rightarrow> expect \<Rightarrow> token list \<Rightarrow> json option" where
  "run st e [] = (case (st, e) of ([], Finished v) \<Rightarrow> Some v | _ \<Rightarrow> None)"
| "run st e (t # ts) =
     (case step st e t of
        None \<Rightarrow> None
      | Some (st', e') \<Rightarrow> run st' e' ts)"

text \<open>\<open>None\<close> is the \<open>SyntaxError\<close> that \<^verbatim>\<open>JSON.parse\<close> throws.\<close>

definition JSON_parse :: "jsstring \<Rightarrow> json option" where
  "JSON_parse s = (case tokenize s of None \<Rightarrow> None | Some ts \<Rightarrow> run [] Value ts)"

section \<open>detectObjects\<close>

text \<open>
  Lines 295 to 306, the body of the \<^verbatim>\<open>try\<close> block: \<^verbatim>\<open>response.text.trim()\<close> reads a
  property of the text without \<^verbatim>\<open>?.\<close>, so an undefined text raises \<open>TypeError\<close>.
\<close>

definition parseDetectedObjects :: "GenerateContentResponse \<Rightarrow> error + json list" where
  "parseDetectedObjects response =
     (case text' response of
        None \<Rightarrow> Inl TypeError
      | Some t \<Rightarrow>
          let jsonText = trim t in
          if jsonText = [] then Inr []
          else
            (case JSON_parse jsonText of
               None \<Rightarrow> Inl SyntaxError
             | Some (JArray detectedObjects) \<Rightarrow> Inr detectedObjects
             | Some _ \<Rightarrow> Inl (NotAnArray (str ''Parsed JSON is not an array.''))))"

text \<open>
  Lines 288 to 310, what \<^verbatim>\<open>detectObjects\<close> does with the response of the service once
  the request has returned. The \<^verbatim>\<open>catch\<close> clause replaces every exception of the
  \<^verbatim>\<open>try\<close> block by the same failure. The elements of the array are returned as
  parsed.
\<close>

definition detectObjects :: "GenerateContentResponse \<Rightarrow> error + json list" where
  "detectObjects response =
     (if truthy (Option.bind (promptFeedback response) blockReason) then
        (case promptFeedback response of
           None \<Rightarrow> Inl TypeError
         | Some pf \<Rightarrow> Inl (RequestBlocked (blockedMessage pf)))
      else
        (case parseDetectedObjects response of
           Inr detectedObjects \<Rightarrow> Inr detectedObjects
         | Inl e \<Rightarrow>
             Inl (MalformedDetectionPayload
               (str ''The AI model returned an invalid format for object detection. Please try again.''))))"

section \<open>The vocabulary of the properties\<close>

text \<open>
  The block reason of a response, the content parts and the finish reason of its first
  candidate, written without optional chaining: when the candidates, the first
  candidate, its content or its parts are absent there are no parts, and when there is
  no first candidate there is no finish reason.
\<close>

definition blockReasonOf :: "GenerateContentResponse \<Rightarrow> jsstring option" where
  "blockReasonOf response =
     (case promptFeedback response of None \<Rightarrow> None | Some pf \<Rightarrow> blockReason pf)"

definition firstParts :: "GenerateContentResponse \<Rightarrow> Part list" where
  "firstParts response =
     (case candidates response of
        None \<Rightarrow> []
      | Some [] \<Rightarrow> []
      | Some (c # _) \<Rightarrow>
          (case content c of
             None \<Rightarrow> []
           | Some ct \<Rightarrow> (case parts ct of None \<Rightarrow> [] | Some ps \<Rightarrow> ps)))"

definition firstFinishReason :: "GenerateContentResponse \<Rightarrow> jsstring option" where
  "firstFinishReason response =
     (case candidates response of
        None \<Rightarrow> None
      | Some [] \<Rightarrow> None
      | Some (c # _) \<Rightarrow> finishReason c)"

text \<open>
  Modelled from the spec: the finish reason of a candidate is a value of an enumeration of
  the service (section 3 and the glossary), which the client library declares. A value
  is known by its name, a string that is not empty, and the response carries the name:
  \<open>Rep_FinishReason\<close> is the name of a value. \<open>STOP\<close> is normal completion and
  \<open>SAFETY\<close> the value that the specification names.
\<close>

typedef FinishReason = "{name :: jsstring. name \<noteq> []}"
  by (rule exI [of _ "str ''STOP''"]) (simp add: str_def)

setup_lifting type_definition_FinishReason

lift_definition STOP :: FinishReason is "str ''STOP''"
  by (simp add: str_def)

lift_definition SAFETY :: FinishReason is "str ''SAFETY''"
  by (simp add: str_def)

text \<open>\<^verbatim>\<open>Array.isArray\<close> on a parsed value.\<close>

fun isArray :: "json \<Rightarrow> bool" where
  "isArray (JArray xs) = True"
| "isArray v = False"

text \<open>The two failure kinds of a response without image, as tests on a result.\<close>

fun isAbnormalFinish :: "error + jsstring \<Rightarrow> bool" where
  "isAbnormalFinish (Inl (AbnormalFinish m)) = True"
| "isAbnormalFinish r = False"

fun isNoImageReturned :: "error + jsstring \<Rightarrow> bool" where
  "isNoImageReturned (Inl (NoImageReturned m)) = True"
| "isNoImageReturned r = False"

subsection \<open>Responses used as examples\<close>

definition pngPart :: Part where
  "pngPart = \<lparr>inlineData = Some \<lparr>mimeType = str ''image/png'', data = str ''iVBORw0KGgo=''\<rparr>\<rparr>"

definition jpegPart :: Part where
  "jpegPart = \<lparr>inlineData = Some \<lparr>mimeType = str ''image/jpeg'', data = str ''/9j/4AAQ''\<rparr>\<rparr>"

definition textPart :: Part where
  "textPart = \<lparr>inlineData = None\<rparr>"

text \<open>One candidate with the given parts and finish reason.\<close>

definition candidateOf :: "Part list \<Rightarrow> jsstring option \<Rightarrow> Candidate" where
  "candidateOf ps fr = \<lparr>content = Some \<lparr>parts = Some ps\<rparr>, finishReason = fr\<rparr>"

text \<open>
  A blocked prompt whose response also carries an image and a parseable text; and the same
  response with an empty block reason.
\<close>

definition blockedResponse :: GenerateContentResponse where
  "blockedResponse =
     \<lparr>promptFeedback = Some \<lparr>blockReason = Some (str ''SAFETY''), blockReasonMessage = None\<rparr>,
      candidates = Some [candidateOf [pngPart] (Some (str ''STOP''))],
      text' = Some (str ''[]'')\<rparr>"

definition emptyBlockReasonResponse :: GenerateContentResponse where
  "emptyBlockReasonResponse =
     \<lparr>promptFeedback = Some \<lparr>blockReason = Some [], blockReasonMessage = None\<rparr>,
      candidates = Some [candidateOf [pngPart] (Some (str ''STOP''))],
      text' = Some (str ''[]'')\<rparr>"

text \<open>
  An image after a part without inline data and before a second image; the finish reason
  and the top-level text are the arguments.
\<close>

definition imageResponse :: "jsstring option \<Rightarrow> jsstring option \<Rightarrow> GenerateContentResponse" where
  "imageResponse fr t =
     \<lparr>promptFeedback = None,
      candidates = Some [candidateOf [textPart, pngPart, jpegPart] fr],
      text' = t\<rparr>"

text \<open>No image: the finish reason and the top-level text are the arguments.\<close>

definition noImageResponse :: "jsstring option \<Rightarrow> jsstring option \<Rightarrow> GenerateContentResponse" where
  "noImageResponse fr t =
     \<lparr>promptFeedback = None, candidates = Some [candidateOf [textPart] fr], text' = t\<rparr>"

text \<open>A detection response: no candidates are needed, the text is the argument.\<close>

definition detectionResponse :: "jsstring option \<Rightarrow> GenerateContentResponse" where
  "detectionResponse t = \<lparr>promptFeedback = None, candidates = None, text' = t\<rparr>"

section \<open>Auxiliary facts\<close>

lemma find_first_match:
  "\<forall>q \<in> set ps. \<not> P q \<Longrightarrow> P p \<Longrightarrow> find P (ps @ p # qs) = Some p"
  by (induction ps) auto

lemma find_no_match: "\<forall>q \<in> set ps. \<not> P q \<Longrightarrow> find P ps = None"
  by (induction ps) auto

lemma not_blocked:
  "blockReasonOf response = None \<Longrightarrow>
   \<not> truthy (Option.bind (promptFeedback response) blockReason)"
  by (simp add: blockReasonOf_def truthy_def split: option.splits)

lemma blocked:
  "promptFeedback response = Some pf \<Longrightarrow> blockReason pf = Some br \<Longrightarrow> br \<noteq> [] \<Longrightarrow>
   truthy (Option.bind (promptFeedback response) blockReason)"
  by (simp add: truthy_def)

lemma blockedMessage_eq:
  "blockReason pf = Some br \<Longrightarrow>
   blockedMessage pf =
     str ''Request was blocked. Reason: '' @ br @ str ''. '' @
     (case blockReasonMessage pf of None \<Rightarrow> [] | Some m \<Rightarrow> m)"
  by (simp add: blockedMessage_def interp_def truthy_def str_def split: option.splits)

lemma first_parts_of_chain:
  "Option.bind (Option.bind (firstCandidate response) content) parts = Some ps \<Longrightarrow>
   firstParts response = ps"
  by (auto simp: firstParts_def firstCandidate_def
      split: option.splits list.splits Option.bind_splits)

lemma chain_of_first_parts:
  "firstParts response = p # ps \<Longrightarrow>
   Option.bind (Option.bind (firstCandidate response) content) parts = Some (p # ps)"
  by (auto simp: firstParts_def firstCandidate_def split: option.splits list.splits)

lemma image_part_found:
  assumes "firstParts response = ps @ p # qs"
      and "\<forall>q \<in> set ps. inlineData q = None"
      and "inlineData p = Some blob"
  shows "Option.bind
           (Option.bind (Option.bind (Option.bind (firstCandidate response) content) parts)
              (find (\<lambda>part. inlineData part \<noteq> None))) inlineData = Some blob"
proof -
  from assms(1) have "firstParts response \<noteq> []" by simp
  then obtain x xs where "firstParts response = x # xs"
    by (cases "firstParts response") auto
  with assms(1) have
    "Option.bind (Option.bind (firstCandidate response) content) parts = Some (ps @ p # qs)"
    using chain_of_first_parts by metis
  moreover from assms(2,3) have "find (\<lambda>part. inlineData part \<noteq> None) (ps @ p # qs) = Some p"
    by (intro find_first_match) auto
  ultimately show ?thesis using assms(3) by simp
qed

lemma image_part_missing:
  assumes "\<forall>q \<in> set (firstParts response). inlineData q = None"
  shows "Option.bind
           (Option.bind (Option.bind (Option.bind (firstCandidate response) content) parts)
              (find (\<lambda>part. inlineData part \<noteq> None))) inlineData = None"
proof (cases "Option.bind (Option.bind (firstCandidate response) content) parts")
  case None
  then show ?thesis by simp
next
  case (Some ps)
  then have "firstParts response = ps" by (rule first_parts_of_chain)
  with assms have "find (\<lambda>part. inlineData part \<noteq> None) ps = None"
    by (simp add: find_no_match)
  with Some show ?thesis by simp
qed

lemma first_finish_reason:
  "Option.bind (firstCandidate response) finishReason = firstFinishReason response"
  by (auto simp: firstFinishReason_def firstCandidate_def split: option.splits list.splits)

lemma image_wins:
  assumes "blockReasonOf response = None"
      and "firstParts response = ps @ p # qs"
      and "\<forall>q \<in> set ps. inlineData q = None"
      and "inlineData p = Some blob"
  shows "handleApiResponse response context =
           Inr (str ''data:'' @ mimeType blob @ str '';base64,'' @ data blob)"
  using not_blocked [OF assms(1)] image_part_found [OF assms(2,3,4)]
  by (simp add: handleApiResponse_def)

lemma no_image_steps:
  assumes "blockReasonOf response = None"
      and "\<forall>q \<in> set (firstParts response). inlineData q = None"
  shows "handleApiResponse response context =
           (if truthy (firstFinishReason response) \<and>
               firstFinishReason response \<noteq> Some (str ''STOP'') then
              Inl (AbnormalFinish
                (str ''Image generation for '' @ context @
                 str '' stopped unexpectedly. Reason: '' @ interp (firstFinishReason response) @
                 str ''. This often relates to safety settings.''))
            else
              Inl (NoImageReturned
                (str ''The AI model did not return an image for the '' @ context @ str ''. '' @
                 (if truthy (map_option trim (text' response)) then
                    str ''The model responded with text: \"'' @
                    interp (map_option trim (text' response)) @ str ''\"''
                  else
                    str ''This can happen due to safety filters or if the request is too complex. Please try rephrasing your prompt to be more direct.''))))"
  using not_blocked [OF assms(1)] image_part_missing [OF assms(2)]
  by (simp add: handleApiResponse_def first_finish_reason Let_def)

lemma trim_blank:
  assumes "\<forall>c \<in> set t. isWhiteSpace c"
  shows "trim t = []"
proof -
  from assms have blank: "dropWhile isWhiteSpace t = []" by simp
  show ?thesis unfolding trim_def blank by simp
qed

lemma JSON_parse_empty: "JSON_parse [] = None"
  by (simp add: JSON_parse_def)

lemma not_array_cases: "\<not> isArray v \<Longrightarrow> (case v of JArray xs \<Rightarrow> a xs | _ \<Rightarrow> b) = b"
  by (cases v) auto

text \<open>The parser on the texts of the examples.\<close>

lemma parse_empty_array: "JSON_parse (trim (str ''[]'')) = Some (JArray [])"
  by code_simp

lemma parse_not_json: "JSON_parse (trim (str ''not json'')) = None"
  by code_simp

lemma parse_object:
  "JSON_parse (trim (str ''{\"label\":\"cat\"}'')) =
     Some (JObject [(str ''label'', JString (str ''cat''))])"
  by code_simp

lemma parse_numbers:
  "JSON_parse (trim (str '' [1,2,3] '')) =
     Some (JArray [JNumber (str ''1''), JNumber (str ''2''), JNumber (str ''3'')])"
  by code_simp

lemma parse_detections:
  "JSON_parse (trim (str
     ''[{\"label\":\"cat\",\"box\":{\"x1\":0,\"y1\":0,\"x2\":10,\"y2\":10}}, {\"box\":null}, \"x\"]'')) =
     Some (JArray
       [JObject
          [(str ''label'', JString (str ''cat'')),
           (str ''box'', JObject
              [(str ''x1'', JNumber (str ''0'')), (str ''y1'', JNumber (str ''0'')),
               (str ''x2'', JNumber (str ''10'')), (str ''y2'', JNumber (str ''10''))])],
        JObject [(str ''box'', JNull)],
        JString (str ''x'')])"
  by code_simp

section \<open>Precedence of the block reason\<close>

text \<open>
  C1, as the code has it. A response whose prompt feedback carries a block reason that is
  not the empty string is a \<open>RequestBlocked\<close> failure of both \<open>handleApiResponse\<close>
  (for any context) and \<open>detectObjects\<close>, whatever its candidates, parts, finish reason
  and text are. The message is built from the block reason and the optional block reason
  message only.
\<close>

theorem blocked_precedes_all:
  assumes "promptFeedback response = Some pf"
      and "blockReason pf = Some br"
      and "br \<noteq> []"
  shows "handleApiResponse response context =
           Inl (RequestBlocked
             (str ''Request was blocked. Reason: '' @ br @ str ''. '' @
              (case blockReasonMessage pf of None \<Rightarrow> [] | Some m \<Rightarrow> m))) \<and>
         detectObjects response =
           Inl (RequestBlocked
             (str ''Request was blocked. Reason: '' @ br @ str ''. '' @
              (case blockReasonMessage pf of None \<Rightarrow> [] | Some m \<Rightarrow> m)))"
  using blocked [OF assms] assms(1) blockedMessage_eq [OF assms(2)]
  by (simp add: handleApiResponse_def detectObjects_def)

text \<open>
  The response \<open>blockedResponse\<close> is blocked for SAFETY and also carries an image and
  the text of an empty array: both functions report the block.
\<close>

theorem blocked_precedes_all_witness:
  "handleApiResponse blockedResponse (str ''edit'') =
     Inl (RequestBlocked (str ''Request was blocked. Reason: SAFETY. '')) \<and>
   detectObjects blockedResponse =
     Inl (RequestBlocked (str ''Request was blocked. Reason: SAFETY. ''))"
  using blocked_precedes_all [of blockedResponse
      "\<lparr>blockReason = Some (str ''SAFETY''), blockReasonMessage = None\<rparr>"
      "str ''SAFETY''" "str ''edit''"]
  by (simp add: blockedResponse_def str_def)

text \<open>
  C1 as stated fails when the block reason is present and empty: the condition of lines 44
  and 288 tests the block reason for truthiness, and the empty string is falsy. On
  \<open>emptyBlockReasonResponse\<close> both functions succeed.
\<close>

theorem empty_block_reason_counterexample:
  "blockReasonOf emptyBlockReasonResponse = Some [] \<and>
   handleApiResponse emptyBlockReasonResponse (str ''edit'') =
     Inr (str ''data:image/png;base64,iVBORw0KGgo='') \<and>
   detectObjects emptyBlockReasonResponse = Inr []"
  by code_simp

section \<open>The image\<close>

text \<open>
  C2. When no block reason is present and the parts of the first candidate are \<open>ps\<close>
  without inline data, then a part \<open>p\<close> with inline data, then any parts \<open>qs\<close>,
  \<open>handleApiResponse\<close> succeeds with \<^verbatim>\<open>data:\<close>, the MIME type of \<open>p\<close>,
  \<^verbatim>\<open>;base64,\<close> and the payload of \<open>p\<close>, both unchanged; the parts \<open>qs\<close> play no role.
\<close>

theorem first_image_is_returned:
  assumes "blockReasonOf response = None"
      and "firstParts response = ps @ p # qs"
      and "\<forall>q \<in> set ps. inlineData q = None"
      and "inlineData p = Some blob"
  shows "handleApiResponse response context =
           Inr (str ''data:'' @ mimeType blob @ str '';base64,'' @ data blob)"
  using assms by (rule image_wins)

theorem first_image_is_returned_witness:
  "handleApiResponse (imageResponse (Some (str ''STOP'')) None) (str ''edit'') =
     Inr (str ''data:image/png;base64,iVBORw0KGgo='')"
  using first_image_is_returned [of "imageResponse (Some (str ''STOP'')) None"
      "[textPart]" pngPart "[jpegPart]"
      "\<lparr>mimeType = str ''image/png'', data = str ''iVBORw0KGgo=''\<rparr>" "str ''edit''"]
  by (simp add: imageResponse_def candidateOf_def blockReasonOf_def firstParts_def
      textPart_def pngPart_def str_def)

text \<open>
  C3. The steps are tried in order and the first that applies decides. With no block
  reason and a part with inline data among the parts of the first candidate,
  \<open>handleApiResponse\<close> succeeds with the image of the first such part, and it still
  does when the finish reason of the first candidate and the top-level text are replaced
  by any values \<open>fr\<close> and \<open>t\<close>: a finish reason that is not \<^verbatim>\<open>STOP\<close> and a text
  that is not empty change nothing.
\<close>

theorem image_precedes_finish_reason_and_text:
  assumes "blockReasonOf response = None"
      and "candidates response = Some (c # cs)"
      and "content c = Some ct"
      and "parts ct = Some (ps @ p # qs)"
      and "\<forall>q \<in> set ps. inlineData q = None"
      and "inlineData p = Some blob"
  shows "handleApiResponse response context =
           Inr (str ''data:'' @ mimeType blob @ str '';base64,'' @ data blob) \<and>
         handleApiResponse
           (response\<lparr>candidates := Some (c\<lparr>finishReason := fr\<rparr> # cs), text' := t\<rparr>) context =
           Inr (str ''data:'' @ mimeType blob @ str '';base64,'' @ data blob)"
proof -
  let ?other = "response\<lparr>candidates := Some (c\<lparr>finishReason := fr\<rparr> # cs), text' := t\<rparr>"
  from assms(2-4) have "firstParts response = ps @ p # qs"
    by (simp add: firstParts_def)
  moreover from assms(1) have "blockReasonOf ?other = None"
    by (simp add: blockReasonOf_def)
  moreover from assms(3,4) have "firstParts ?other = ps @ p # qs"
    by (simp add: firstParts_def)
  ultimately show ?thesis
    using assms(1,5,6) by (simp add: image_wins)
qed

text \<open>
  The image is returned with the finish reason SAFETY and the text
  \<^verbatim>\<open>I cannot do that.\<close>, and with the finish reason SAFETY and no text.
\<close>

theorem image_precedes_finish_reason_and_text_witness:
  "handleApiResponse
     (imageResponse (Some (str ''SAFETY'')) (Some (str ''I cannot do that.''))) (str ''filter'') =
     Inr (str ''data:image/png;base64,iVBORw0KGgo='') \<and>
   handleApiResponse (imageResponse (Some (str ''SAFETY'')) None) (str ''filter'') =
     Inr (str ''data:image/png;base64,iVBORw0KGgo='')"
  using image_precedes_finish_reason_and_text
      [of "imageResponse (Some (str ''STOP'')) None"
        "candidateOf [textPart, pngPart, jpegPart] (Some (str ''STOP''))" "[]"
        "\<lparr>parts = Some [textPart, pngPart, jpegPart]\<rparr>"
        "[textPart]" pngPart "[jpegPart]"
        "\<lparr>mimeType = str ''image/png'', data = str ''iVBORw0KGgo=''\<rparr>"
        "str ''filter''" "Some (str ''I cannot do that.'')" "Some (str ''SAFETY'')"]
    image_precedes_finish_reason_and_text
      [of "imageResponse (Some (str ''SAFETY'')) None"
        "candidateOf [textPart, pngPart, jpegPart] (Some (str ''SAFETY''))" "[]"
        "\<lparr>parts = Some [textPart, pngPart, jpegPart]\<rparr>"
        "[textPart]" pngPart "[jpegPart]"
        "\<lparr>mimeType = str ''image/png'', data = str ''iVBORw0KGgo=''\<rparr>"
        "str ''filter''" None None]
  by (simp add: imageResponse_def candidateOf_def blockReasonOf_def
      textPart_def pngPart_def jpegPart_def str_def)

section \<open>No image\<close>

text \<open>
  C4. With no block reason and no inline data among the parts of the first candidate, a
  finish reason of the first candidate that is present and is not \<open>STOP\<close> makes
  \<open>handleApiResponse\<close> fail with \<open>AbnormalFinish\<close>; the message contains the context
  and the name of the finish reason.
\<close>

theorem abnormal_finish_is_reported:
  fixes response :: GenerateContentResponse and "context" :: jsstring and reason :: FinishReason
  defines "message \<equiv>
             str ''Image generation for '' @ context @
             str '' stopped unexpectedly. Reason: '' @ Rep_FinishReason reason @
             str ''. This often relates to safety settings.''"
  assumes "blockReasonOf response = None"
      and "\<forall>q \<in> set (firstParts response). inlineData q = None"
      and "firstFinishReason response = Some (Rep_FinishReason reason)"
      and "reason \<noteq> STOP"
  shows "handleApiResponse response context = Inl (AbnormalFinish message) \<and>
         sublist context message \<and> sublist (Rep_FinishReason reason) message"
proof -
  have "Rep_FinishReason reason \<noteq> []"
    using Rep_FinishReason [of reason] by simp
  moreover from assms(5) have "Rep_FinishReason reason \<noteq> str ''STOP''"
    by (simp add: STOP.rep_eq [symmetric] Rep_FinishReason_inject)
  ultimately have "handleApiResponse response context = Inl (AbnormalFinish message)"
    using assms(4) unfolding no_image_steps [OF assms(2,3)] message_def
    by (simp add: truthy_def interp_def)
  moreover have "sublist context message"
    unfolding message_def by (rule sublist_appendI)
  moreover have "sublist (Rep_FinishReason reason) message"
    unfolding message_def sublist_def
    by (intro exI [of _ "str ''Image generation for '' @ context @
           str '' stopped unexpectedly. Reason: ''"]
         exI [of _ "str ''. This often relates to safety settings.''"]) simp
  ultimately show ?thesis by simp
qed

text \<open>For the finish reason SAFETY and the context \<^verbatim>\<open>edit\<close> the message contains SAFETY.\<close>

theorem abnormal_finish_is_reported_witness:
  "handleApiResponse (noImageResponse (Some (str ''SAFETY'')) None) (str ''edit'') =
     Inl (AbnormalFinish (str
       ''Image generation for edit stopped unexpectedly. Reason: SAFETY. This often relates to safety settings.'')) \<and>
   sublist (str ''edit'') (str
       ''Image generation for edit stopped unexpectedly. Reason: SAFETY. This often relates to safety settings.'') \<and>
   sublist (str ''SAFETY'') (str
       ''Image generation for edit stopped unexpectedly. Reason: SAFETY. This often relates to safety settings.'')"
proof -
  have "SAFETY \<noteq> STOP"
    by (simp add: Rep_FinishReason_inject [symmetric] SAFETY.rep_eq STOP.rep_eq str_def)
  then show ?thesis
    using abnormal_finish_is_reported
      [of "noImageResponse (Some (str ''SAFETY'')) None" SAFETY "str ''edit''"]
    by (simp add: noImageResponse_def candidateOf_def blockReasonOf_def firstParts_def
        firstFinishReason_def textPart_def SAFETY.rep_eq str_def)
qed

text \<open>
  C5, as the code has it. With no block reason, no inline data among the parts of the
  first candidate, a finish reason that is absent or \<^verbatim>\<open>STOP\<close>, and a top-level text that is
  not empty after trimming, \<open>handleApiResponse\<close> fails with \<open>NoImageReturned\<close>; the
  message contains the context and the trimmed text, in quotation marks.
\<close>

theorem text_feedback_is_reported:
  fixes response :: GenerateContentResponse and "context" t :: jsstring
  defines "message \<equiv>
             str ''The AI model did not return an image for the '' @ context @ str ''. '' @
             str ''The model responded with text: \"'' @ trim t @ str ''\"''"
  assumes "blockReasonOf response = None"
      and "\<forall>q \<in> set (firstParts response). inlineData q = None"
      and "firstFinishReason response = None \<or> firstFinishReason response = Some (str ''STOP'')"
      and "text' response = Some t"
      and "trim t \<noteq> []"
  shows "handleApiResponse response context = Inl (NoImageReturned message) \<and>
         sublist context message \<and> sublist (trim t) message"
proof -
  have "handleApiResponse response context = Inl (NoImageReturned message)"
    using assms(4-6) unfolding no_image_steps [OF assms(2,3)] message_def
    by (auto simp add: truthy_def interp_def)
  moreover have "sublist context message"
    unfolding message_def by (rule sublist_appendI)
  moreover have "sublist (trim t) message"
    unfolding message_def sublist_def
    by (intro exI [of _ "str ''The AI model did not return an image for the '' @ context @
           str ''. '' @ str ''The model responded with text: \"''"]
         exI [of _ "str ''\"''"]) simp
  ultimately show ?thesis by simp
qed

text \<open>For the text \<^verbatim>\<open>I cannot do that.\<close> the message contains the text itself.\<close>

theorem text_feedback_is_reported_witness:
  "handleApiResponse
     (noImageResponse (Some (str ''STOP'')) (Some (str ''I cannot do that.''))) (str ''edit'') =
     Inl (NoImageReturned (str
       ''The AI model did not return an image for the edit. The model responded with text: \"I cannot do that.\"'')) \<and>
   sublist (str ''I cannot do that.'') (str
       ''The AI model did not return an image for the edit. The model responded with text: \"I cannot do that.\"'')"
  using text_feedback_is_reported
      [of "noImageResponse (Some (str ''STOP'')) (Some (str ''I cannot do that.''))"
        "str ''I cannot do that.''" "str ''edit''"]
  by (simp add: noImageResponse_def candidateOf_def blockReasonOf_def firstParts_def
      firstFinishReason_def textPart_def str_def trim_def isWhiteSpace_def)

text \<open>
  C5 as stated fails for a text with white space around it: line 68 trims the text before
  line 71 puts it into the message, so the text as returned is not in the message.
\<close>

theorem untrimmed_text_counterexample:
  "text' (noImageResponse (Some (str ''STOP'')) (Some (str '' hi ''))) = Some (str '' hi '') \<and>
   trim (str '' hi '') \<noteq> [] \<and>
   handleApiResponse (noImageResponse (Some (str ''STOP'')) (Some (str '' hi ''))) (str ''edit'') =
     Inl (NoImageReturned (str
       ''The AI model did not return an image for the edit. The model responded with text: \"hi\"'')) \<and>
   \<not> sublist (str '' hi '') (str
       ''The AI model did not return an image for the edit. The model responded with text: \"hi\"'')"
  by code_simp

text \<open>
  C6. With no block reason, no inline data among the parts of the first candidate, a
  finish reason that is absent or \<^verbatim>\<open>STOP\<close>, and a top-level text that is absent or consists
  of white space only (the empty text included), \<open>handleApiResponse\<close> fails with
  \<open>NoImageReturned\<close> and the generic guidance: the message is built from the context
  alone, no text of the response is in it.
\<close>

theorem generic_guidance_is_reported:
  assumes "blockReasonOf response = None"
      and "\<forall>q \<in> set (firstParts response). inlineData q = None"
      and "firstFinishReason response = None \<or> firstFinishReason response = Some (str ''STOP'')"
      and "text' response = None \<or>
           (\<exists>t. text' response = Some t \<and> (\<forall>c \<in> set t. isWhiteSpace c))"
  shows "handleApiResponse response context =
           Inl (NoImageReturned
             (str ''The AI model did not return an image for the '' @ context @ str ''. '' @
              str ''This can happen due to safety filters or if the request is too complex. Please try rephrasing your prompt to be more direct.''))"
proof -
  from assms(4) have "\<not> truthy (map_option trim (text' response))"
    by (auto simp: truthy_def trim_blank)
  with assms(3) show ?thesis
    unfolding no_image_steps [OF assms(1,2)] by (auto simp: truthy_def)
qed

theorem generic_guidance_is_reported_witness:
  "handleApiResponse
     (noImageResponse (Some (str ''STOP'')) (Some [0x0020, 0x000A, 0x0009])) (str ''edit'') =
     Inl (NoImageReturned (str
       ''The AI model did not return an image for the edit. This can happen due to safety filters or if the request is too complex. Please try rephrasing your prompt to be more direct.'')) \<and>
   handleApiResponse (noImageResponse None None) (str ''upscale to 4K'') =
     Inl (NoImageReturned (str
       ''The AI model did not return an image for the upscale to 4K. This can happen due to safety filters or if the request is too complex. Please try rephrasing your prompt to be more direct.''))"
  using generic_guidance_is_reported
      [of "noImageResponse (Some (str ''STOP'')) (Some [0x0020, 0x000A, 0x0009])" "str ''edit''"]
    generic_guidance_is_reported [of "noImageResponse None None" "str ''upscale to 4K''"]
  by (simp add: noImageResponse_def candidateOf_def blockReasonOf_def firstParts_def
      firstFinishReason_def textPart_def str_def isWhiteSpace_def)

text \<open>
  C7. When no block reason is present and the candidates are absent (or empty), or the
  content of the first candidate is absent, or the parts of that content are absent,
  \<open>handleApiResponse\<close> goes on to the finish reason and the text: it fails with
  \<open>AbnormalFinish\<close> exactly when the finish reason of the first candidate is truthy and
  not \<^verbatim>\<open>STOP\<close>, and with \<open>NoImageReturned\<close> otherwise. So it does not succeed and it
  raises no \<open>TypeError\<close>.
\<close>

theorem incomplete_response_falls_through:
  assumes "blockReasonOf response = None"
      and "candidates response = None \<or> candidates response = Some [] \<or>
           (\<exists>c cs. candidates response = Some (c # cs) \<and>
              (content c = None \<or> (\<exists>ct. content c = Some ct \<and> parts ct = None)))"
  shows "isAbnormalFinish (handleApiResponse response context) =
           (truthy (firstFinishReason response) \<and>
            firstFinishReason response \<noteq> Some (str ''STOP'')) \<and>
         isNoImageReturned (handleApiResponse response context) =
           (\<not> (truthy (firstFinishReason response) \<and>
               firstFinishReason response \<noteq> Some (str ''STOP'')))"
proof -
  from assms(2) have "firstParts response = []"
    by (auto simp: firstParts_def)
  then have no_image: "\<forall>q \<in> set (firstParts response). inlineData q = None" by simp
  show ?thesis
    unfolding no_image_steps [OF assms(1) no_image] by simp
qed

text \<open>
  Without candidates the failure is \<open>NoImageReturned\<close>; with a first candidate without
  content that stopped for SAFETY it is \<open>AbnormalFinish\<close>; with a content without parts
  and no finish reason it is \<open>NoImageReturned\<close>.
\<close>

theorem incomplete_response_falls_through_witness:
  "isNoImageReturned (handleApiResponse (detectionResponse None) (str ''edit'')) \<and>
   isAbnormalFinish
     (handleApiResponse
        \<lparr>promptFeedback = None,
         candidates = Some [\<lparr>content = None, finishReason = Some (str ''SAFETY'')\<rparr>],
         text' = None\<rparr> (str ''edit'')) \<and>
   isNoImageReturned
     (handleApiResponse
        \<lparr>promptFeedback = None,
         candidates = Some [\<lparr>content = Some \<lparr>parts = None\<rparr>, finishReason = None\<rparr>],
         text' = Some (str ''no'')\<rparr> (str ''edit''))"
  using incomplete_response_falls_through [of "detectionResponse None" "str ''edit''"]
    incomplete_response_falls_through
      [of "\<lparr>promptFeedback = None,
            candidates = Some [\<lparr>content = None, finishReason = Some (str ''SAFETY'')\<rparr>],
            text' = None\<rparr>" "str ''edit''"]
    incomplete_response_falls_through
      [of "\<lparr>promptFeedback = None,
            candidates = Some [\<lparr>content = Some \<lparr>parts = None\<rparr>, finishReason = None\<rparr>],
            text' = Some (str ''no'')\<rparr>" "str ''edit''"]
  by (simp add: detectionResponse_def blockReasonOf_def firstFinishReason_def truthy_def str_def)

section \<open>Detection\<close>

text \<open>
  C8 at a response without top-level text. The claim asks for the empty sequence; the
  \<^verbatim>\<open>try\<close> block calls \<^verbatim>\<open>trim\<close> on the undefined text (line 296, without the \<^verbatim>\<open>?.\<close> that
  line 68 has), the \<open>TypeError\<close> is caught at line 307 and \<open>detectObjects\<close> fails with
  \<open>MalformedDetectionPayload\<close>.
\<close>

theorem detect_undefined_text_fails:
  "blockReasonOf (detectionResponse None) = None \<and>
   text' (detectionResponse None) = None \<and>
   parseDetectedObjects (detectionResponse None) = Inl TypeError \<and>
   detectObjects (detectionResponse None) =
     Inl (MalformedDetectionPayload (str
       ''The AI model returned an invalid format for object detection. Please try again.''))"
  by (simp add: detectionResponse_def blockReasonOf_def parseDetectedObjects_def
      detectObjects_def truthy_def)

text \<open>
  The other half of C8 holds: a text that is present and empty after trimming gives the
  empty sequence.
\<close>

lemma detect_blank_text:
  assumes "blockReasonOf response = None"
      and "text' response = Some t"
      and "trim t = []"
  shows "detectObjects response = Inr []"
  using not_blocked [OF assms(1)] assms(2,3)
  by (simp add: detectObjects_def parseDetectedObjects_def)

text \<open>
  C9. With no block reason and a top-level text that is not empty after trimming, when
  \<^verbatim>\<open>JSON.parse\<close> rejects the trimmed text or returns a value that is not an array,
  \<open>detectObjects\<close> fails with \<open>MalformedDetectionPayload\<close> and the message that the
  model returned an invalid format.
\<close>

theorem malformed_detection_is_reported:
  assumes "blockReasonOf response = None"
      and "text' response = Some t"
      and "trim t \<noteq> []"
      and "JSON_parse (trim t) = None \<or> (\<exists>v. JSON_parse (trim t) = Some v \<and> \<not> isArray v)"
  shows "detectObjects response =
           Inl (MalformedDetectionPayload (str
             ''The AI model returned an invalid format for object detection. Please try again.''))"
proof -
  from assms(2-4) have "\<exists>e. parseDetectedObjects response = Inl e"
    by (auto simp: parseDetectedObjects_def not_array_cases)
  with not_blocked [OF assms(1)] show ?thesis
    by (auto simp: detectObjects_def)
qed

text \<open>
  The text \<^verbatim>\<open>not json\<close> is rejected by the parser, and the text of an object parses to a
  value that is not an array: both are this failure.
\<close>

theorem malformed_detection_is_reported_witness:
  "detectObjects (detectionResponse (Some (str ''not json''))) =
     Inl (MalformedDetectionPayload (str
       ''The AI model returned an invalid format for object detection. Please try again.'')) \<and>
   detectObjects (detectionResponse (Some (str ''{\"label\":\"cat\"}''))) =
     Inl (MalformedDetectionPayload (str
       ''The AI model returned an invalid format for object detection. Please try again.''))"
proof -
  have unblocked: "blockReasonOf (detectionResponse t) = None" for t
    by (simp add: detectionResponse_def blockReasonOf_def)
  have has_text: "text' (detectionResponse (Some t)) = Some t" for t
    by (simp add: detectionResponse_def)
  have "trim (str ''not json'') \<noteq> []"
    by (simp add: trim_def str_def isWhiteSpace_def)
  moreover have "trim (str ''{\"label\":\"cat\"}'') \<noteq> []"
    by (simp add: trim_def str_def isWhiteSpace_def)
  moreover have "\<exists>v. JSON_parse (trim (str ''{\"label\":\"cat\"}'')) = Some v \<and> \<not> isArray v"
    using parse_object by simp
  ultimately show ?thesis
    using malformed_detection_is_reported [OF unblocked has_text, of "str ''not json''"]
      malformed_detection_is_reported [OF unblocked has_text, of "str ''{\"label\":\"cat\"}''"]
      parse_not_json
    by blast
qed

text \<open>
  C10. With no block reason, when \<^verbatim>\<open>JSON.parse\<close> returns an array for the trimmed text,
  \<open>detectObjects\<close> succeeds with exactly the elements of that array, in their order.
  No element is inspected: nothing is required of a label, a box or its coordinates, and
  an element need not be an object.
\<close>

theorem parsed_array_is_returned:
  assumes "blockReasonOf response = None"
      and "text' response = Some t"
      and "JSON_parse (trim t) = Some (JArray xs)"
  shows "detectObjects response = Inr xs"
proof -
  from assms(3) have "trim t \<noteq> []"
    using JSON_parse_empty by auto
  with not_blocked [OF assms(1)] assms(2,3) show ?thesis
    by (simp add: detectObjects_def parseDetectedObjects_def)
qed

text \<open>
  The array of three numbers is returned as it is; so is an array whose first element is
  a detected object, whose second has a box that is \<^verbatim>\<open>null\<close> and no label, and whose third
  is a string.
\<close>

theorem parsed_array_is_returned_witness:
  "detectObjects (detectionResponse (Some (str '' [1,2,3] ''))) =
     Inr [JNumber (str ''1''), JNumber (str ''2''), JNumber (str ''3'')] \<and>
   detectObjects (detectionResponse (Some (str
     ''[{\"label\":\"cat\",\"box\":{\"x1\":0,\"y1\":0,\"x2\":10,\"y2\":10}}, {\"box\":null}, \"x\"]''))) =
     Inr [JObject
            [(str ''label'', JString (str ''cat'')),
             (str ''box'', JObject
                [(str ''x1'', JNumber (str ''0'')), (str ''y1'', JNumber (str ''0'')),
                 (str ''x2'', JNumber (str ''10'')), (str ''y2'', JNumber (str ''10''))])],
          JObject [(str ''box'', JNull)],
          JString (str ''x'')]"
proof -
  have unblocked: "blockReasonOf (detectionResponse t) = None" for t
    by (simp add: detectionResponse_def blockReasonOf_def)
  have has_text: "text' (detectionResponse (Some t)) = Some t" for t
    by (simp add: detectionResponse_def)
  show ?thesis
    using parsed_array_is_returned [OF unblocked has_text parse_numbers]
      parsed_array_is_returned [OF unblocked has_text parse_detections]
    by simp
qed

end
